theory Spec2Isabelle
  imports Complex_Main
begin

section \<open>Input streams\<close>

text \<open>
  The utilities of \<^verbatim>\<open>utils/slow_file_reader.cc\<close> read their source through a
  \<^verbatim>\<open>std::ifstream\<close>.  The stream is modelled by what the code observes of it: the
  bytes of the underlying file, whether the file descriptor can seek (a regular file
  can, a pipe given with \<^verbatim>\<open>-i -\<close> cannot), the get position and the three state bits
  of \<^verbatim>\<open>std::ios_base\<close>.  A stream whose file could not be opened is a stream with
  \<open>failbit\<close> set.  Reads of the device itself never fail in the model (no \<open>EIO\<close>),
  and the bytes are finitely many.  The offset a seek to the end reports is the number
  of these bytes, as it is for a regular file.  A character device such as the default
  source \<^verbatim>\<open>/dev/urandom\<close> is different: a seek to its end reports the offset 0 and
  yet every read gets bytes.  The reader, which never seeks, sees of it only the bytes
  that its reads get; the copier, which measures its source first, is given the
  measured stream and the bytes that its reads get separately (see \<open>source_yields\<close>).
\<close>

datatype seekdir = Seek_beg | Seek_cur | Seek_end

record ifstream =
  content :: string
  seekable :: bool
  gpos :: nat
  eofbit :: bool
  failbit :: bool
  badbit :: bool

definition good :: "ifstream \<Rightarrow> bool" where
  "good s = (\<not> eofbit s \<and> \<not> failbit s \<and> \<not> badbit s)"

text \<open>\<^verbatim>\<open>fail()\<close>; the conversion \<^verbatim>\<open>if (ifs)\<close> is its negation.\<close>

definition fail :: "ifstream \<Rightarrow> bool" where
  "fail s = (failbit s \<or> badbit s)"

text \<open>
  The sentry every unformatted input function constructs first (with \<^verbatim>\<open>noskipws\<close>):
  on a stream that is not good it sets \<open>failbit\<close> and the operation does nothing more.
\<close>

definition sentry :: "ifstream \<Rightarrow> ifstream \<times> bool" where
  "sentry s = (if good s then (s, True) else (s\<lparr>failbit := True\<rparr>, False))"

text \<open>
  \<^verbatim>\<open>rdbuf()->pubseekoff(off, dir, in)\<close> on a file buffer: the new offset, or \<open>-1\<close>
  when the descriptor cannot seek or the target lies before the start of the file.
  As \<^verbatim>\<open>lseek\<close> does, it accepts a target past the end of the file.
\<close>

definition pubseekoff :: "int \<Rightarrow> seekdir \<Rightarrow> ifstream \<Rightarrow> ifstream \<times> int" where
  "pubseekoff off dir s =
     (let base = (case dir of
                    Seek_beg \<Rightarrow> 0
                  | Seek_cur \<Rightarrow> int (gpos s)
                  | Seek_end \<Rightarrow> int (length (content s)));
          target = base + off
      in if seekable s \<and> 0 \<le> target then (s\<lparr>gpos := nat target\<rparr>, target) else (s, - 1))"

text \<open>\<^verbatim>\<open>tellg()\<close>: \<open>-1\<close> on a failed stream, the buffer's current offset otherwise.\<close>

definition tellg :: "ifstream \<Rightarrow> ifstream \<times> int" where
  "tellg s =
     (case sentry s of
        (s1, ok) \<Rightarrow> if ok \<and> \<not> fail s1 then pubseekoff 0 Seek_cur s1 else (s1, - 1))"

text \<open>
  \<^verbatim>\<open>seekg(off, dir)\<close> (C++11): clears \<open>eofbit\<close>, then seeks unless the stream has
  failed; a seek the buffer refuses sets \<open>failbit\<close>.
\<close>

definition seekg :: "int \<Rightarrow> seekdir \<Rightarrow> ifstream \<Rightarrow> ifstream" where
  "seekg off dir s =
     (case sentry (s\<lparr>eofbit := False\<rparr>) of
        (s1, ok) \<Rightarrow>
          if ok \<and> \<not> fail s1
          then (case pubseekoff off dir s1 of
                  (s2, p) \<Rightarrow> if p = - 1 then s2\<lparr>failbit := True\<rparr> else s2)
          else s1)"

text \<open>
  \<^verbatim>\<open>read(buf, n)\<close> followed by \<^verbatim>\<open>gcount()\<close>: the bytes extracted (their number is
  \<^verbatim>\<open>gcount()\<close>).  Fewer than \<open>n\<close> bytes means the end of the file was reached: both
  \<open>eofbit\<close> and \<open>failbit\<close> are set.
\<close>

definition istream_read :: "int \<Rightarrow> ifstream \<Rightarrow> ifstream \<times> string" where
  "istream_read n s =
     (case sentry s of
        (s1, ok) \<Rightarrow>
          if ok
          then (let got = take (nat n) (drop (gpos s1) (content s1));
                    s2 = s1\<lparr>gpos := gpos s1 + length got\<rparr>
                in (if int (length got) \<noteq> n then s2\<lparr>eofbit := True, failbit := True\<rparr> else s2,
                    got))
          else (s1, []))"

subsection \<open>fileLength\<close>

text \<open>
  \<^verbatim>\<open>
  long fileLength(std::ifstream &fs) {
      std::lock_guard<std::mutex> lock(fileMutex);
      long currentPos = fs.tellg();
      fs.seekg(0, std::ifstream::end);
      long length = fs.tellg();
      fs.seekg(currentPos, std::ifstream::beg);
      return length;
  }
  \<close>
  The result is the returned \<^verbatim>\<open>long\<close> together with the stream as the call leaves it.
\<close>

definition fileLength :: "ifstream \<Rightarrow> int \<times> ifstream" where
  "fileLength fs =
     (case tellg fs of
        (fs1, currentPos) \<Rightarrow>
          (case tellg (seekg 0 Seek_end fs1) of
             (fs3, len) \<Rightarrow> (len, seekg currentPos Seek_beg fs3)))"

section \<open>Size arguments: dehumanize\<close>

subsection \<open>Regular expressions\<close>

text \<open>
  \<open>dehumanize\<close> tests its argument with \<^verbatim>\<open>std::regex_match\<close> against three ECMAScript
  patterns.  The patterns use literal characters, \<^verbatim>\<open>.\<close>, \<^verbatim>\<open>*\<close>, alternation and
  concatenation; \<open>regex\<close> has a constructor for each (\<open>Nul\<close>, the pattern that matches
  nothing, only arises as a derivative).  \<^verbatim>\<open>regex_match\<close> asks whether the whole string
  matches, which is decided here by Brzozowski derivatives.  In ECMAScript a dot matches
  every character but the line terminators.
\<close>

datatype regex = Nul | Eps | Chr char | Dot | Alt regex regex | Seq regex regex | Star regex

definition line_terminator :: "char \<Rightarrow> bool" where
  "line_terminator c = (c = CHR 0x0A \<or> c = CHR 0x0D)"

fun nullable :: "regex \<Rightarrow> bool" where
  "nullable Nul = False"
| "nullable Eps = True"
| "nullable (Chr c) = False"
| "nullable Dot = False"
| "nullable (Alt r s) = (nullable r \<or> nullable s)"
| "nullable (Seq r s) = (nullable r \<and> nullable s)"
| "nullable (Star r) = True"

fun deriv :: "char \<Rightarrow> regex \<Rightarrow> regex" where
  "deriv c Nul = Nul"
| "deriv c Eps = Nul"
| "deriv c (Chr d) = (if c = d then Eps else Nul)"
| "deriv c Dot = (if line_terminator c then Nul else Eps)"
| "deriv c (Alt r s) = Alt (deriv c r) (deriv c s)"
| "deriv c (Seq r s) =
     (if nullable r then Alt (Seq (deriv c r) s) (deriv c s) else Seq (deriv c r) s)"
| "deriv c (Star r) = Seq (deriv c r) (Star r)"

definition regex_match :: "string \<Rightarrow> regex \<Rightarrow> bool" where
  "regex_match s r = nullable (fold deriv s r)"

fun literal :: "string \<Rightarrow> regex" where
  "literal [] = Eps"
| "literal [c] = Chr c"
| "literal (c # cs) = Seq (Chr c) (literal cs)"

text \<open>
  The three patterns of the source, \<^verbatim>\<open>".*(K|KiB)$"\<close>, \<^verbatim>\<open>".*(M|MiB)$"\<close> and
  \<^verbatim>\<open>",*(G|GiB)$"\<close>.  The closing \<^verbatim>\<open>$\<close> asserts the end of the input, which
  \<^verbatim>\<open>regex_match\<close> demands of a match anyway.  The third pattern starts with a comma where
  the other two have a dot.
\<close>

definition kibi_pattern :: regex where
  "kibi_pattern = Seq (Star Dot) (Alt (literal ''K'') (literal ''KiB''))"

definition mebi_pattern :: regex where
  "mebi_pattern = Seq (Star Dot) (Alt (literal ''M'') (literal ''MiB''))"

definition gibi_pattern :: regex where
  "gibi_pattern = Seq (Star (Chr CHR '','')) (Alt (literal ''G'') (literal ''GiB''))"

text \<open>
  The language of a pattern, as sets of strings: the meaning the matcher is proved
  against.
\<close>

definition conc :: "string set \<Rightarrow> string set \<Rightarrow> string set" where
  "conc A B = {u @ v | u v. u \<in> A \<and> v \<in> B}"

inductive_set star :: "string set \<Rightarrow> string set" for A :: "string set" where
  star_empty: "[] \<in> star A"
| star_step: "u \<in> A \<Longrightarrow> v \<in> star A \<Longrightarrow> u @ v \<in> star A"

fun lang :: "regex \<Rightarrow> string set" where
  "lang Nul = {}"
| "lang Eps = {[]}"
| "lang (Chr c) = {[c]}"
| "lang Dot = {[c] | c. \<not> line_terminator c}"
| "lang (Alt r s) = lang r \<union> lang s"
| "lang (Seq r s) = conc (lang r) (lang s)"
| "lang (Star r) = star (lang r)"

subsection \<open>Numbers\<close>

text \<open>
  What can go wrong in the modelled code without a C++ result to return: behaviour the
  language leaves undefined (a \<^verbatim>\<open>double\<close> converted to a \<^verbatim>\<open>long\<close> that cannot hold it,
  signed overflow, division by zero), an exception nobody catches, and number syntax of
  \<^verbatim>\<open>strtod\<close> that the model does not interpret.
\<close>

datatype fault =
    Unmodelled_number_syntax
  | Double_to_long_out_of_range
  | Signed_overflow
  | Division_by_zero
  | Length_error

definition isspace_c :: "char \<Rightarrow> bool" where
  "isspace_c c = (c \<in> set [CHR '' '', CHR 0x09, CHR 0x0A, CHR 0x0B, CHR 0x0C, CHR 0x0D])"

definition isdigit_c :: "char \<Rightarrow> bool" where
  "isdigit_c c = (c \<in> set ''0123456789'')"

definition digit_value :: "char \<Rightarrow> nat" where
  "digit_value c = of_char c - 48"

text \<open>The number a string of decimal digits denotes.\<close>

definition decimal_value :: "string \<Rightarrow> nat" where
  "decimal_value ds = foldl (\<lambda>acc c. 10 * acc + digit_value c) 0 ds"

fun bitlen :: "nat \<Rightarrow> nat" where
  "bitlen n = (if n = 0 then 0 else Suc (bitlen (n div 2)))"

declare bitlen.simps [simp del]

text \<open>
  The \<^verbatim>\<open>double\<close> nearest to a natural number (IEEE 754 binary64, round to nearest,
  ties to even), as a natural number again: numbers below \<open>2^53\<close> are doubles, larger
  ones keep their 53 leading bits.
\<close>

definition round_double :: "nat \<Rightarrow> nat" where
  "round_double n =
     (if n < 2 ^ 53 then n
      else (let e = bitlen n - 53;
                q = n div 2 ^ e;
                r = n mod 2 ^ e;
                h = 2 ^ (e - 1)
            in (if h < r \<or> (r = h \<and> odd q) then q + 1 else q) * 2 ^ e))"

text \<open>
  \<^verbatim>\<open>strtod\<close> in the C locale, for the part of its syntax that denotes an integer: leading
  white space, an optional sign and decimal digits; with no digits there is no conversion
  and the result is zero.  The result is the value of the returned \<^verbatim>\<open>double\<close>.  Where
  \<^verbatim>\<open>strtod\<close> would read on (a fraction, an exponent, a hexadecimal number, \<^verbatim>\<open>inf\<close>,
  \<^verbatim>\<open>nan\<close>) the model answers \<open>Unmodelled_number_syntax\<close> rather than a number.  A
  digit string too long for a \<^verbatim>\<open>double\<close> makes \<^verbatim>\<open>strtod\<close> return infinity; the model
  keeps a number of at least \<open>2^1023\<close> there, which the only use made of it treats alike.
\<close>

definition strtod :: "string \<Rightarrow> fault + int" where
  "strtod s =
     (let t = dropWhile isspace_c s;
          negative = (t \<noteq> [] \<and> hd t = CHR ''-'');
          u = (if t \<noteq> [] \<and> (hd t = CHR ''-'' \<or> hd t = CHR ''+'') then tl t else t);
          ds = takeWhile isdigit_c u;
          rest = dropWhile isdigit_c u
      in if rest \<noteq> [] \<and> hd rest \<in> set ''.eE'' then Inl Unmodelled_number_syntax
         else if ds = ''0'' \<and> rest \<noteq> [] \<and> hd rest \<in> set ''xX'' then Inl Unmodelled_number_syntax
         else if ds = [] \<and> rest \<noteq> [] \<and> hd rest \<in> set ''iInN'' then Inl Unmodelled_number_syntax
         else Inr ((if negative then - 1 else 1) * int (round_double (decimal_value ds))))"

text \<open>
  \<^verbatim>\<open>
  double readNumber(const std::string &number) {
      char *endPtr;
      return strtod(number.c_str(), &endPtr);
  }
  \<close>
\<close>

definition readNumber :: "string \<Rightarrow> fault + int" where
  "readNumber number = strtod number"

text \<open>
  The conversion \<^verbatim>\<open>long(d)\<close> of an integral \<^verbatim>\<open>double\<close>, and the product of two
  \<^verbatim>\<open>long\<close> values; both are undefined outside the range of a 64-bit \<^verbatim>\<open>long\<close>.
\<close>

definition long_of_double :: "int \<Rightarrow> fault + int" where
  "long_of_double d =
     (if - (2 ^ 63) \<le> d \<and> d < 2 ^ 63 then Inr d else Inl Double_to_long_out_of_range)"

definition mul_long :: "int \<Rightarrow> int \<Rightarrow> fault + int" where
  "mul_long a b =
     (if - (2 ^ 63) \<le> a * b \<and> a * b < 2 ^ 63 then Inr (a * b) else Inl Signed_overflow)"

subsection \<open>dehumanize\<close>

text \<open>
  \<^verbatim>\<open>
  long dehumanize(const std::string &number) {
      long result;
      result = long(readNumber(number));
      std::smatch sm;
      if (regex_match(number.begin(), number.end(), std::regex(".*(K|KiB)$"))) {
          result *= 1 << 10;
      } else if (regex_match(number.begin(), number.end(), std::regex(".*(M|MiB)$"))) {
          result *= 1 << 20;
      } else if (regex_match(number.begin(), number.end(), std::regex(",*(G|GiB)$"))) {
          result *= 1 << 30;
      }
      return result;
  }
  \<close>
  The function is the same in both programs of the listing.
\<close>

definition dehumanize :: "string \<Rightarrow> fault + int" where
  "dehumanize number =
     (case readNumber number of
        Inl f \<Rightarrow> Inl f
      | Inr d \<Rightarrow>
          (case long_of_double d of
             Inl f \<Rightarrow> Inl f
           | Inr result \<Rightarrow>
               if regex_match number kibi_pattern then mul_long result (2 ^ 10)
               else if regex_match number mebi_pattern then mul_long result (2 ^ 20)
               else if regex_match number gibi_pattern then mul_long result (2 ^ 30)
               else Inr result))"

section \<open>The option store\<close>

text \<open>
  Both programs of the listing keep their options in one object that every function
  fetches through \<^verbatim>\<open>Options::getInstance()\<close>:
  \<^verbatim>\<open>
  struct Options {
      long chunkSize;
      long chunksMaxCount;
      std::string source;
      std::string destination;
      bool showProgress;
      long querySize;
      double timeoutSeconds;
      long waitingTimeMilliseconds;
      static Options *getInstance() {
          if (nullptr == instance) { instance = new Options(); }
          return instance;
      }
  protected:
      static Options *instance;
      Options() : chunkSize(64 * 1 << 20), chunksMaxCount(-1), source("/dev/urandom"),
                  destination("/dev/null"), showProgress(true), querySize(-1),
                  timeoutSeconds(-1), waitingTimeMilliseconds(0) {}
  };
  Options *Options::instance = nullptr;
  \<close>
  (The second program adds a reference to the stream the progress lines go to, which
  are not modelled.)  The static pointer \<^verbatim>\<open>Options::instance\<close> is the only global state of
  the programs; the model passes it along as an \<open>Options option\<close>, \<open>None\<close> for the null
  pointer.  A \<^verbatim>\<open>long\<close> is modelled as an \<open>int\<close> and a duration in seconds as a \<open>real\<close>.
\<close>

record Options =
  chunkSize :: int
  chunksMaxCount :: int
  source :: string
  destination :: string
  showProgress :: bool
  querySize :: int
  timeoutSeconds :: real
  waitingTimeMilliseconds :: int

definition Options_ctor :: Options where
  "Options_ctor =
     \<lparr>chunkSize = 64 * 1 * 2 ^ 20, chunksMaxCount = - 1, source = ''/dev/urandom'',
      destination = ''/dev/null'', showProgress = True, querySize = - 1,
      timeoutSeconds = - 1, waitingTimeMilliseconds = 0\<rparr>"

text \<open>The object returned, and the static pointer after the call.\<close>

definition getInstance :: "Options option \<Rightarrow> Options \<times> Options option" where
  "getInstance inst =
     (case inst of
        None \<Rightarrow> (Options_ctor, Some Options_ctor)
      | Some options \<Rightarrow> (options, Some options))"

definition INT64_MAX :: int where
  "INT64_MAX = 9223372036854775807"

text \<open>\<^verbatim>\<open>MAXFLOAT\<close>, the largest \<^verbatim>\<open>float\<close>: \<open>(2^24 - 1) * 2^104\<close>.\<close>

definition MAXFLOAT :: real where
  "MAXFLOAT = 340282346638528859811704183484516925440"

text \<open>
  Division of \<^verbatim>\<open>long\<close> values: the quotient is truncated towards zero; a zero divisor
  and the quotient \<open>2^63\<close> are undefined.
\<close>

definition div_long :: "int \<Rightarrow> int \<Rightarrow> fault + int" where
  "div_long a b =
     (if b = 0 then Inl Division_by_zero
      else if a = - (2 ^ 63) \<and> b = - 1 then Inl Signed_overflow
      else Inr (sgn a * sgn b * (\<bar>a\<bar> div \<bar>b\<bar>)))"

text \<open>
  The second program (the reader):
  \<^verbatim>\<open>
  void processOptions() {
      Options *options = Options::getInstance();
      if (-1 == options->querySize) { options->querySize = INT64_MAX; }
      if (options->chunksMaxCount == -1) {
          options->chunksMaxCount = options->querySize / options->chunkSize;
      }
      if (-1 == options->timeoutSeconds) { options->timeoutSeconds = MAXFLOAT; }
  }
  \<close>
  The function writes through the pointer; the model returns the static pointer with the
  updated object behind it.
\<close>

definition processOptions :: "Options option \<Rightarrow> fault + Options option" where
  "processOptions inst =
     (let options = fst (getInstance inst);
          options1 = (if - 1 = querySize options
                      then options\<lparr>querySize := INT64_MAX\<rparr> else options)
      in case (if chunksMaxCount options1 = - 1
               then (case div_long (querySize options1) (chunkSize options1) of
                       Inl f \<Rightarrow> Inl f
                     | Inr q \<Rightarrow> Inr (options1\<lparr>chunksMaxCount := q\<rparr>))
               else Inr options1) of
           Inl f \<Rightarrow> Inl f
         | Inr options2 \<Rightarrow>
             Inr (Some (if - 1 = timeoutSeconds options2
                        then options2\<lparr>timeoutSeconds := MAXFLOAT\<rparr> else options2)))"

text \<open>
  The first program (the copier) has \<^verbatim>\<open>void processOptions(const long& fileSize)\<close>, which
  differs in one line: an unset \<^verbatim>\<open>querySize\<close> becomes \<^verbatim>\<open>fileSize\<close>.
\<close>

definition processOptions_fileSize :: "int \<Rightarrow> Options option \<Rightarrow> fault + Options option" where
  "processOptions_fileSize fileSize inst =
     (let options = fst (getInstance inst);
          options1 = (if - 1 = querySize options
                      then options\<lparr>querySize := fileSize\<rparr> else options)
      in case (if chunksMaxCount options1 = - 1
               then (case div_long (querySize options1) (chunkSize options1) of
                       Inl f \<Rightarrow> Inl f
                     | Inr q \<Rightarrow> Inr (options1\<lparr>chunksMaxCount := q\<rparr>))
               else Inr options1) of
           Inl f \<Rightarrow> Inl f
         | Inr options2 \<Rightarrow>
             Inr (Some (if - 1 = timeoutSeconds options2
                        then options2\<lparr>timeoutSeconds := MAXFLOAT\<rparr> else options2)))"

section \<open>The read loop and the copy loop\<close>

subsection \<open>Files and clocks\<close>

text \<open>
  What the programs find outside: for each path, the bytes of the file and whether it
  can seek when it opens for reading (\<open>None\<close> when it does not open), and whether it
  opens for writing.  An \<^verbatim>\<open>std::ofstream\<close> is the bytes it has passed on to its file,
  laid out by their offsets, and whether it has failed (\<^verbatim>\<open>fail()\<close>; the conversion
  \<^verbatim>\<open>if (ofs)\<close> is its negation).
\<close>

record filesystem =
  readable :: "string \<Rightarrow> (string \<times> bool) option"
  writable :: "string \<Rightarrow> bool"

record ofstream =
  obytes :: string
  ofail :: bool

definition open_ifstream :: "filesystem \<Rightarrow> string \<Rightarrow> ifstream" where
  "open_ifstream fs path =
     (case readable fs path of
        None \<Rightarrow> \<lparr>content = [], seekable = False, gpos = 0,
                  eofbit = False, failbit = True, badbit = False\<rparr>
      | Some (bytes, seeks) \<Rightarrow> \<lparr>content = bytes, seekable = seeks, gpos = 0,
                  eofbit = False, failbit = False, badbit = False\<rparr>)"

text \<open>Opening for writing creates the file or truncates it.\<close>

definition open_ofstream :: "filesystem \<Rightarrow> string \<Rightarrow> ofstream" where
  "open_ofstream fs path = \<lparr>obytes = [], ofail = \<not> writable fs path\<rparr>"

text \<open>
  Time enters the loops through \<^verbatim>\<open>Clock::now()\<close> only: \<open>elapsed k\<close> is
  \<^verbatim>\<open>grossElapsed\<close> of the iteration \<open>k\<close>, the seconds from \<^verbatim>\<open>start\<close> to \<^verbatim>\<open>grossEnd\<close>
  (the read and the sleep of \<^verbatim>\<open>waitingTimeMilliseconds\<close>).  The sums are taken in the
  reals; the rounding of \<^verbatim>\<open>double\<close> addition is not modelled.
\<close>

type_synonym clock = "nat \<Rightarrow> real"

subsection \<open>fileRead\<close>

text \<open>
  The local variables of the loop that decide its course or are reported: the source
  stream, \<^verbatim>\<open>result\<close>, \<^verbatim>\<open>totalRead\<close>, \<^verbatim>\<open>chunksCount\<close>, \<^verbatim>\<open>totalElapsed\<close>, and the
  number of the iteration (which selects the clock's reading).
\<close>

record loop_state =
  ifs :: ifstream
  result :: bool
  totalRead :: int
  chunksCount :: int
  totalElapsed :: real
  iteration :: nat

text \<open>
  The two halves of the test at the head of the loop,
  \<^verbatim>\<open>totalElapsed > options->timeoutSeconds || chunksCount++ > options->chunksMaxCount\<close>.
\<close>

definition timed_out :: "Options \<Rightarrow> 'a loop_state_scheme \<Rightarrow> bool" where
  "timed_out options st = (timeoutSeconds options < totalElapsed st)"

definition over_budget :: "Options \<Rightarrow> 'a loop_state_scheme \<Rightarrow> bool" where
  "over_budget options st = (chunksMaxCount options < chunksCount st)"

text \<open>
  One iteration of the reader past the test (which has incremented \<^verbatim>\<open>chunksCount\<close>):
  \<^verbatim>\<open>
  start = Clock::now();
  { std::lock_guard<std::mutex> lock(fileMutex);
    ifs.read(buffer.data(), options->chunkSize);
    readEnd = Clock::now();
    bytesRead = ifs.gcount(); }
  totalRead += bytesRead;
  std::this_thread::sleep_for(std::chrono::milliseconds(options->waitingTimeMilliseconds));
  grossEnd = Clock::now();
  double grossElapsed = double(TO_NANOSECONDS(grossEnd - start)) * 1e-9;
  totalElapsed += grossElapsed;
  \<close>
\<close>

definition fileRead_body :: "Options \<Rightarrow> clock \<Rightarrow> loop_state \<Rightarrow> loop_state" where
  "fileRead_body options elapsed st =
     (case istream_read (chunkSize options) (ifs st) of
        (ifs1, bytes) \<Rightarrow>
          st\<lparr>ifs := ifs1,
             totalRead := totalRead st + int (length bytes),
             chunksCount := chunksCount st + 1,
             totalElapsed := totalElapsed st + elapsed (iteration st),
             iteration := Suc (iteration st)\<rparr>)"

text \<open>
  \<^verbatim>\<open>
  do {
      if (totalElapsed > options->timeoutSeconds ||
          chunksCount++ > options->chunksMaxCount) {
          result = true;
          break;
      }
      ...
  } while (ifs && ofs);
  \<close>
  The reader never touches \<^verbatim>\<open>ofs\<close> after the test \<^verbatim>\<open>if (ofs)\<close> that guards the loop, so
  the condition of the loop is that of \<^verbatim>\<open>ifs\<close>.  The function is the loop entered at
  its head; its value is the state in which the loop is left.
\<close>

function fileRead_loop :: "Options \<Rightarrow> clock \<Rightarrow> loop_state \<Rightarrow> loop_state" where
  "fileRead_loop options elapsed st =
     (if timed_out options st then st\<lparr>result := True\<rparr>
      else if over_budget options st
      then st\<lparr>chunksCount := chunksCount st + 1, result := True\<rparr>
      else if fail (ifs (fileRead_body options elapsed st))
      then fileRead_body options elapsed st
      else fileRead_loop options elapsed (fileRead_body options elapsed st))"
  by pat_completeness auto
termination
  by (relation "measure (\<lambda>(options, elapsed, st). nat (chunksMaxCount options + 1 - chunksCount st))")
    (auto simp: over_budget_def fileRead_body_def split: prod.splits)

declare fileRead_loop.simps [simp del]

text \<open>
  The state in which the loop is entered, when both streams open:
  \<^verbatim>\<open>
  std::ifstream ifs(options->source, std::ifstream::binary);
  if (ifs) {
      long totalRead = 0;
      std::ofstream ofs(options->destination, std::ofstream::binary);
      if (ofs) {
          long chunksCount = 0;
          double totalElapsed = 0;
  \<close>
  Opening the destination truncates it, so a source under the same path is empty from
  then on.
\<close>

definition fileRead_start :: "Options \<Rightarrow> filesystem \<Rightarrow> loop_state option" where
  "fileRead_start options fs =
     (let ifs0 = open_ifstream fs (source options)
      in if fail ifs0 then None
         else if ofail (open_ofstream fs (destination options)) then None
         else Some \<lparr>ifs = (if destination options = source options
                            then ifs0\<lparr>content := []\<rparr> else ifs0),
                     result = False, totalRead = 0, chunksCount = 0, totalElapsed = 0,
                     iteration = 0\<rparr>)"

text \<open>
  \<^verbatim>\<open>bool fileRead()\<close>.  Before anything else it allocates
  \<^verbatim>\<open>std::vector<char> buffer(options->chunkSize)\<close>, which throws \<^verbatim>\<open>std::length_error\<close>
  for a negative size; nothing catches it.  (Memory is unbounded in the model: no
  \<^verbatim>\<open>std::bad_alloc\<close>.)  \<^verbatim>\<open>result\<close> starts as \<^verbatim>\<open>false\<close> and is what every path
  returns.
\<close>

definition fileRead :: "Options option \<Rightarrow> filesystem \<Rightarrow> clock \<Rightarrow> fault + bool" where
  "fileRead inst fs elapsed =
     (let options = fst (getInstance inst)
      in if chunkSize options < 0 then Inl Length_error
         else (case fileRead_start options fs of
                 None \<Rightarrow> Inr False
               | Some st0 \<Rightarrow> Inr (result (fileRead_loop options elapsed st0))))"

text \<open>
  \<^verbatim>\<open>
  int main(int argc, char *argv[]) {
      parseArguments(argc, argv);
      processOptions();
      if (!fileRead())
          return 1;
      return 0;
  }
  \<close>
  from the option store as \<^verbatim>\<open>parseArguments\<close> leaves it: the exit status.
\<close>

definition main_after_parseArguments :: "Options option \<Rightarrow> filesystem \<Rightarrow> clock \<Rightarrow> fault + int" where
  "main_after_parseArguments inst fs elapsed =
     (case processOptions inst of
        Inl f \<Rightarrow> Inl f
      | Inr inst1 \<Rightarrow>
          (case fileRead inst1 fs elapsed of
             Inl f \<Rightarrow> Inl f
           | Inr r \<Rightarrow> Inr (if \<not> r then 1 else 0)))"

text \<open>
  How a run of the loop can go, told from outside: \<open>head_state n\<close> is the state at the
  head of the loop after \<open>n\<close> full iterations, and the loop gets there when, each time
  before, the test at the head did not fire and the stream was still good after the read.
  The loop is stopped by a limit when it gets to a head where the test fires, and by the
  source when it gets to a head where the test does not fire and the read that follows
  leaves the stream failed.
\<close>

definition head_state :: "Options \<Rightarrow> clock \<Rightarrow> loop_state \<Rightarrow> nat \<Rightarrow> loop_state" where
  "head_state options elapsed st n = (fileRead_body options elapsed ^^ n) st"

definition limit_hit :: "Options \<Rightarrow> loop_state \<Rightarrow> bool" where
  "limit_hit options st = (timed_out options st \<or> over_budget options st)"

definition reaches_head :: "Options \<Rightarrow> clock \<Rightarrow> loop_state \<Rightarrow> nat \<Rightarrow> bool" where
  "reaches_head options elapsed st n =
     (\<forall>j < n. \<not> limit_hit options (head_state options elapsed st j)
              \<and> \<not> fail (ifs (head_state options elapsed st (Suc j))))"

definition stopped_by_limit :: "Options \<Rightarrow> clock \<Rightarrow> loop_state \<Rightarrow> bool" where
  "stopped_by_limit options elapsed st =
     (\<exists>n. reaches_head options elapsed st n
          \<and> limit_hit options (head_state options elapsed st n))"

definition stopped_by_source :: "Options \<Rightarrow> clock \<Rightarrow> loop_state \<Rightarrow> bool" where
  "stopped_by_source options elapsed st =
     (\<exists>n. reaches_head options elapsed st n
          \<and> \<not> limit_hit options (head_state options elapsed st n)
          \<and> fail (ifs (head_state options elapsed st (Suc n))))"

subsection \<open>fileCopy\<close>

text \<open>
  The copier's loop adds the destination stream and the offset at which each chunk is
  read and written to the variables of the reader's loop.
\<close>

record copy_state = loop_state +
  ofs :: ofstream
  offset :: int

text \<open>
  How \<^verbatim>\<open>ofs.seekp(offset, beg); ofs.write(buffer.data(), bytesRead); ofs.flush();\<close> ends is
  not in the program's hands: the device may be full, the file may have reached a size
  limit, the descriptor may refuse to seek.  Either all the bytes are passed on to the
  file, or the stream fails (\<^verbatim>\<open>failbit\<close> from \<^verbatim>\<open>seekp\<close>, \<^verbatim>\<open>badbit\<close> from \<^verbatim>\<open>write\<close> or
  \<^verbatim>\<open>flush\<close>) after only some leading bytes, possibly none, have been passed on.
\<close>

datatype write_outcome = Written | Write_failed nat

text \<open>
  What the copier meets besides the file system and the clock: \<open>source_yields\<close> are the
  bytes that the reads of the source get, by offset, once the destination has been opened
  (for a regular file that is not the destination, the bytes of the file; nothing if
  opening the destination truncated that very file, under whatever name; for a device
  such as \<^verbatim>\<open>/dev/urandom\<close>, whose measured length is 0, more bytes than the run asks
  for), and \<open>write_ends k\<close> is how the write of the iteration \<open>k\<close> ends.
\<close>

record copy_io =
  source_yields :: string
  write_ends :: "nat \<Rightarrow> write_outcome"

text \<open>
  The bytes passed on, if there are any, replace what the file holds from \<open>offset\<close> on (a
  gap before them reads as zeros).  On a stream that has failed, none of the three calls
  does anything.
\<close>

definition ostream_write_at :: "write_outcome \<Rightarrow> int \<Rightarrow> string \<Rightarrow> ofstream \<Rightarrow> ofstream" where
  "ostream_write_at outcome offs bytes out =
     (if ofail out then out
      else (let passed = (case outcome of
                            Written \<Rightarrow> bytes
                          | Write_failed n \<Rightarrow> take n bytes)
            in out\<lparr>obytes :=
                     (if passed = [] then obytes out
                      else take (nat offs) (obytes out)
                           @ replicate (nat offs - length (obytes out)) (CHR 0x00)
                           @ passed @ drop (nat offs + length passed) (obytes out)),
                   ofail := (outcome \<noteq> Written)\<rparr>))"

text \<open>
  One iteration of the copier past the test:
  \<^verbatim>\<open>
  { std::lock_guard<std::mutex> lock(fileMutex);
    { ifs.seekg(offset, std::ifstream::beg);
      ifs.read(buffer.data(), options->chunkSize);
      readEnd = Clock::now();
      bytesRead = ifs.gcount(); }
    { ofs.seekp(offset, std::ofstream::beg);
      ofs.write(buffer.data(), bytesRead);
      ofs.flush(); } }
  writeEnd = Clock::now();
  totalRead += bytesRead;
  offset += bytesRead;
  ...
  totalElapsed += grossElapsed;
  \<close>
\<close>

definition fileCopy_body :: "Options \<Rightarrow> copy_io \<Rightarrow> clock \<Rightarrow> copy_state \<Rightarrow> copy_state" where
  "fileCopy_body options io elapsed st =
     (case istream_read (chunkSize options) (seekg (offset st) Seek_beg (ifs st)) of
        (ifs1, bytes) \<Rightarrow>
          st\<lparr>ifs := ifs1,
             ofs := ostream_write_at (write_ends io (iteration st)) (offset st) bytes (ofs st),
             totalRead := totalRead st + int (length bytes),
             offset := offset st + int (length bytes),
             chunksCount := chunksCount st + 1,
             totalElapsed := totalElapsed st + elapsed (iteration st),
             iteration := Suc (iteration st)\<rparr>)"

text \<open>
  \<^verbatim>\<open>
  do {
      if (totalElapsed > options->timeoutSeconds ||
          chunksCount++ > options->chunksMaxCount) {
          break;
      }
      ...
  } while (ifs && ofs);
  \<close>
\<close>

function fileCopy_loop :: "Options \<Rightarrow> copy_io \<Rightarrow> clock \<Rightarrow> copy_state \<Rightarrow> copy_state" where
  "fileCopy_loop options io elapsed st =
     (if timed_out options st then st
      else if over_budget options st then st\<lparr>chunksCount := chunksCount st + 1\<rparr>
      else if fail (ifs (fileCopy_body options io elapsed st))
              \<or> ofail (ofs (fileCopy_body options io elapsed st))
      then fileCopy_body options io elapsed st
      else fileCopy_loop options io elapsed (fileCopy_body options io elapsed st))"
  by pat_completeness auto
termination
  by (relation "measure (\<lambda>(options, io, elapsed, st). nat (chunksMaxCount options + 1 - chunksCount st))")
    (auto simp: over_budget_def fileCopy_body_def split: prod.splits)

declare fileCopy_loop.simps [simp del]

text \<open>
  \<^verbatim>\<open>
  bool fileCopy(std::ostream &statsOutput) {
      Options *options = Options::getInstance();
      bool result = false;
      std::vector<char> buffer(options->chunkSize);
      std::ifstream ifs(options->source, std::ifstream::binary);
      if (ifs) {
          long fileSize = fileLength(ifs);
          processOptions(fileSize);
          long totalRead = 0;
          std::ofstream ofs(options->destination, std::ofstream::binary);
          if (ofs) {
              long offset = 0;
              ...
              do { ... } while (ifs && ofs);
              return fileSize == totalRead;
          }
      }
      return result;
  }
  \<close>
  \<open>fileCopy_run\<close> is the function up to its \<^verbatim>\<open>return\<close>: the measured \<^verbatim>\<open>fileSize\<close> and the
  state in which the loop is left, or \<open>None\<close> when a stream did not open.  \<^verbatim>\<open>fileSize\<close> is
  measured on the stream as it opens, before the destination is opened; the loop then
  reads what the source yields from then on.
\<close>

definition fileCopy_run ::
  "Options option \<Rightarrow> filesystem \<Rightarrow> copy_io \<Rightarrow> clock \<Rightarrow> fault + (int \<times> copy_state) option" where
  "fileCopy_run inst fs io elapsed =
     (let options0 = fst (getInstance inst);
          ifs0 = open_ifstream fs (source options0)
      in if chunkSize options0 < 0 then Inl Length_error
         else if fail ifs0 then Inr None
         else (case fileLength ifs0 of
                 (fileSize, ifs1) \<Rightarrow>
                   (case processOptions_fileSize fileSize (Some options0) of
                      Inl f \<Rightarrow> Inl f
                    | Inr inst1 \<Rightarrow>
                        (let options = fst (getInstance inst1);
                             ofs0 = open_ofstream fs (destination options)
                         in if ofail ofs0 then Inr None
                            else Inr (Some (fileSize,
                              fileCopy_loop options io elapsed
                                \<lparr>ifs = ifs1\<lparr>content := source_yields io\<rparr>,
                                 result = False, totalRead = 0, chunksCount = 0,
                                 totalElapsed = 0, iteration = 0,
                                 ofs = ofs0, offset = 0\<rparr>))))))"

definition fileCopy :: "Options option \<Rightarrow> filesystem \<Rightarrow> copy_io \<Rightarrow> clock \<Rightarrow> fault + bool" where
  "fileCopy inst fs io elapsed =
     (case fileCopy_run inst fs io elapsed of
        Inl f \<Rightarrow> Inl f
      | Inr None \<Rightarrow> Inr False
      | Inr (Some (fileSize, st)) \<Rightarrow> Inr (fileSize = totalRead st))"

subsection \<open>Example runs\<close>

text \<open>
  A file of ten bytes under the path \<open>in\<close>, a destination \<open>out\<close>, and options that ask
  for these ten bytes in chunks of four, with a chunk budget \<open>n\<close> and a timeout of \<open>t\<close>
  seconds.
\<close>

definition example_files :: filesystem where
  "example_files =
     \<lparr>readable = (\<lambda>path. if path = ''in'' then Some (''abcdefghij'', True) else None),
      writable = (\<lambda>path. path = ''out'')\<rparr>"

definition example_options :: "int \<Rightarrow> real \<Rightarrow> Options" where
  "example_options n t =
     \<lparr>chunkSize = 4, chunksMaxCount = n, source = ''in'', destination = ''out'',
      showProgress = False, querySize = 10, timeoutSeconds = t,
      waitingTimeMilliseconds = 0\<rparr>"

text \<open>
  For the copier: the source yields the ten bytes of the file, and every write goes
  through, or every write but the one of the iteration \<open>k\<close>, which fails with nothing
  passed on.
\<close>

definition example_io :: copy_io where
  "example_io = \<lparr>source_yields = ''abcdefghij'', write_ends = (\<lambda>k. Written)\<rparr>"

definition example_io_failing :: "nat \<Rightarrow> copy_io" where
  "example_io_failing k =
     \<lparr>source_yields = ''abcdefghij'',
      write_ends = (\<lambda>j. if j = k then Write_failed 0 else Written)\<rparr>"

section \<open>The interface of the read pipeline\<close>

text \<open>
  \<^verbatim>\<open>src/mount/readdata.h\<close> declares the functions of the chunk-read pipeline; their
  bodies are in another file.  A declaration is kept as its return type and its
  parameters, each a type and a name, in the order of the header.
\<close>

datatype ctype =
    Void_t | Bool_t | Int_t | Uint32_t | Uint64_t | Double_t
  | Pointer ctype
  | Reference string

record prototype =
  returns :: ctype
  parameters :: "(ctype \<times> string) list"

text \<open>
  \<^verbatim>\<open>
  uint32_t read_data_get_wave_read_timeout_ms();
  uint32_t read_data_get_connect_timeout_ms();
  uint32_t read_data_get_total_read_timeout_ms();
  bool read_data_get_prefetchxorstripes();

  void read_inode_ops(uint32_t inode);
  void* read_data_new(uint32_t inode);
  void read_data_end(void *rr);
  int read_data(void *rr, uint64_t offset, uint32_t size, ReadCache::Result &ret);
  void read_data_freebuff(void *rr);
  void read_data_init(uint32_t retries,
                  uint32_t chunkserverRoundTripTime_ms,
                  uint32_t chunkserverConnectTimeout_ms,
                  uint32_t chunkServerWaveReadTimeout_ms,
                  uint32_t chunkserverTotalReadTimeout_ms,
                  uint32_t cache_expiration_time_ms,
                  uint32_t readahead_max_window_size_kB,
                  bool prefetchXorStripes,
                  double bandwidth_overuse);
  void read_data_term(void);

  void* read_data_second_buffer(void *args);
  \<close>
\<close>

definition readdata_h :: "(string \<times> prototype) list" where
  "readdata_h =
     [(''read_data_get_wave_read_timeout_ms'', \<lparr>returns = Uint32_t, parameters = []\<rparr>),
      (''read_data_get_connect_timeout_ms'', \<lparr>returns = Uint32_t, parameters = []\<rparr>),
      (''read_data_get_total_read_timeout_ms'', \<lparr>returns = Uint32_t, parameters = []\<rparr>),
      (''read_data_get_prefetchxorstripes'', \<lparr>returns = Bool_t, parameters = []\<rparr>),
      (''read_inode_ops'', \<lparr>returns = Void_t, parameters = [(Uint32_t, ''inode'')]\<rparr>),
      (''read_data_new'', \<lparr>returns = Pointer Void_t, parameters = [(Uint32_t, ''inode'')]\<rparr>),
      (''read_data_end'', \<lparr>returns = Void_t, parameters = [(Pointer Void_t, ''rr'')]\<rparr>),
      (''read_data'',
         \<lparr>returns = Int_t,
          parameters = [(Pointer Void_t, ''rr''), (Uint64_t, ''offset''), (Uint32_t, ''size''),
                        (Reference ''ReadCache::Result'', ''ret'')]\<rparr>),
      (''read_data_freebuff'', \<lparr>returns = Void_t, parameters = [(Pointer Void_t, ''rr'')]\<rparr>),
      (''read_data_init'',
         \<lparr>returns = Void_t,
          parameters = [(Uint32_t, ''retries''),
                        (Uint32_t, ''chunkserverRoundTripTime_ms''),
                        (Uint32_t, ''chunkserverConnectTimeout_ms''),
                        (Uint32_t, ''chunkServerWaveReadTimeout_ms''),
                        (Uint32_t, ''chunkserverTotalReadTimeout_ms''),
                        (Uint32_t, ''cache_expiration_time_ms''),
                        (Uint32_t, ''readahead_max_window_size_kB''),
                        (Bool_t, ''prefetchXorStripes''),
                        (Double_t, ''bandwidth_overuse'')]\<rparr>),
      (''read_data_term'', \<lparr>returns = Void_t, parameters = []\<rparr>),
      (''read_data_second_buffer'',
         \<lparr>returns = Pointer Void_t, parameters = [(Pointer Void_t, ''args'')]\<rparr>)]"

definition declared :: "string \<Rightarrow> prototype option" where
  "declared name = map_of readdata_h name"

text \<open>
  The types a declaration gives the parameters, and the position of a parameter in it.
\<close>

definition parameter_types :: "string \<Rightarrow> ctype list option" where
  "parameter_types name = map_option (\<lambda>d. map fst (parameters d)) (declared name)"

definition parameter_names :: "string \<Rightarrow> string list option" where
  "parameter_names name = map_option (\<lambda>d. map snd (parameters d)) (declared name)"

section \<open>Properties\<close>

subsection \<open>The interface of the read pipeline\<close>

text \<open>
  C4.  \<^verbatim>\<open>read_data_init\<close> is declared with exactly nine parameters, in this order: the
  retry count, the chunkserver round-trip time (ms), the connect timeout (ms), the
  per-wave read timeout (ms), the total read timeout (ms), the cache expiration time
  (ms), the maximal readahead window (kB), all of them \<^verbatim>\<open>uint32_t\<close>, then the switch for
  prefetching XOR stripes, a \<^verbatim>\<open>bool\<close>, and the bandwidth overuse ratio, a \<^verbatim>\<open>double\<close>.
\<close>

theorem read_data_init_takes_nine_options:
  "map_option (\<lambda>d. length (parameters d)) (declared ''read_data_init'') = Some 9
   \<and> parameter_names ''read_data_init'' =
       Some [''retries'', ''chunkserverRoundTripTime_ms'', ''chunkserverConnectTimeout_ms'',
             ''chunkServerWaveReadTimeout_ms'', ''chunkserverTotalReadTimeout_ms'',
             ''cache_expiration_time_ms'', ''readahead_max_window_size_kB'',
             ''prefetchXorStripes'', ''bandwidth_overuse'']
   \<and> parameter_types ''read_data_init'' =
       Some [Uint32_t, Uint32_t, Uint32_t, Uint32_t, Uint32_t, Uint32_t, Uint32_t, Bool_t, Double_t]"
  by (simp add: parameter_names_def parameter_types_def declared_def readdata_h_def)

text \<open>
  C7, as the code has it.  The session handle of the interface is an untyped pointer:
  \<^verbatim>\<open>read_data_new\<close> returns a \<^verbatim>\<open>void*\<close>, and \<^verbatim>\<open>read_data\<close>, \<^verbatim>\<open>read_data_end\<close> and
  \<^verbatim>\<open>read_data_freebuff\<close> take one as their first parameter \<^verbatim>\<open>rr\<close>.
\<close>

theorem session_handle_is_void_pointer:
  "map_option returns (declared ''read_data_new'') = Some (Pointer Void_t)
   \<and> map_option (\<lambda>d. hd (parameters d)) (declared ''read_data'') = Some (Pointer Void_t, ''rr'')
   \<and> map_option parameters (declared ''read_data_end'') = Some [(Pointer Void_t, ''rr'')]
   \<and> map_option parameters (declared ''read_data_freebuff'') = Some [(Pointer Void_t, ''rr'')]"
  by (simp add: declared_def readdata_h_def)

text \<open>
  The claim as stated, that the handle is not a raw untyped pointer, fails on the
  declaration of \<^verbatim>\<open>read_data_new\<close>.
\<close>

theorem session_handle_typed_counterexample:
  "\<not> (\<forall>d. declared ''read_data_new'' = Some d \<longrightarrow> returns d \<noteq> Pointer Void_t)"
  by (simp add: declared_def readdata_h_def)

subsection \<open>The option store\<close>

lemma processOptions_iff:
  "processOptions inst = Inr inst' \<longleftrightarrow>
     (\<exists>count.
        (if chunksMaxCount (fst (getInstance inst)) = - 1
         then div_long (if querySize (fst (getInstance inst)) = - 1 then INT64_MAX
                        else querySize (fst (getInstance inst)))
                (chunkSize (fst (getInstance inst))) = Inr count
         else count = chunksMaxCount (fst (getInstance inst)))
        \<and> inst' = Some ((fst (getInstance inst))
             \<lparr>querySize := (if querySize (fst (getInstance inst)) = - 1 then INT64_MAX
                             else querySize (fst (getInstance inst))),
              chunksMaxCount := count,
              timeoutSeconds := (if timeoutSeconds (fst (getInstance inst)) = - 1 then MAXFLOAT
                                 else timeoutSeconds (fst (getInstance inst)))\<rparr>))"
proof -
  define options where "options = fst (getInstance inst)"
  show ?thesis
    unfolding processOptions_def Let_def options_def [symmetric]
    by (cases "div_long (if querySize options = - 1 then INT64_MAX else querySize options)
                 (chunkSize options)")
      (auto split: if_splits)
qed

text \<open>
  C6, as the code has it.  The configuration is one object behind a global pointer:
  \<open>getInstance\<close> creates it with the default values when the pointer is null and
  otherwise returns the object that is there, leaving the pointer as it is.
  \<open>processOptions\<close> takes the object that \<open>getInstance\<close> returns and overwrites its unset
  fields in place.  It returns exactly when the division it may need is defined, and the
  pointer then names the same object with three fields set: \<^verbatim>\<open>querySize\<close> is
  \<^verbatim>\<open>INT64_MAX\<close> if it was \<open>-1\<close> and unchanged otherwise; \<^verbatim>\<open>chunksMaxCount\<close> is, if it was
  \<open>-1\<close>, the quotient of that \<^verbatim>\<open>querySize\<close> by \<^verbatim>\<open>chunkSize\<close> and unchanged otherwise;
  \<^verbatim>\<open>timeoutSeconds\<close> is \<^verbatim>\<open>MAXFLOAT\<close> if it was \<open>-1\<close> and unchanged otherwise.  Every other
  field is as it was.
\<close>

theorem options_are_a_mutable_singleton:
  "getInstance None = (Options_ctor, Some Options_ctor)
   \<and> getInstance (Some options) = (options, Some options)
   \<and> (processOptions inst = Inr inst' \<longleftrightarrow>
        (\<exists>count.
           (if chunksMaxCount (fst (getInstance inst)) = - 1
            then div_long (if querySize (fst (getInstance inst)) = - 1 then INT64_MAX
                           else querySize (fst (getInstance inst)))
                   (chunkSize (fst (getInstance inst))) = Inr count
            else count = chunksMaxCount (fst (getInstance inst)))
           \<and> inst' = Some ((fst (getInstance inst))
                \<lparr>querySize := (if querySize (fst (getInstance inst)) = - 1 then INT64_MAX
                                else querySize (fst (getInstance inst))),
                 chunksMaxCount := count,
                 timeoutSeconds := (if timeoutSeconds (fst (getInstance inst)) = - 1
                                    then MAXFLOAT
                                    else timeoutSeconds (fst (getInstance inst)))\<rparr>)))"
  using processOptions_iff [of inst inst'] by (simp add: getInstance_def)

text \<open>
  From the null pointer: the object is created with the defaults, all three fields are
  unset, and the quotient of \<^verbatim>\<open>INT64_MAX\<close> by the chunk size of 64 MiB is 137438953471.
\<close>

theorem options_are_a_mutable_singleton_witness:
  "div_long INT64_MAX (chunkSize Options_ctor) = Inr 137438953471
   \<and> processOptions None =
       Inr (Some (Options_ctor\<lparr>querySize := INT64_MAX,
                              chunksMaxCount := 137438953471,
                              timeoutSeconds := MAXFLOAT\<rparr>))"
proof -
  have quotient: "div_long INT64_MAX (chunkSize Options_ctor) = Inr 137438953471"
    by (simp add: div_long_def INT64_MAX_def Options_ctor_def)
  have unset: "querySize Options_ctor = - 1" "chunksMaxCount Options_ctor = - 1"
    "timeoutSeconds Options_ctor = - 1"
    by (simp_all add: Options_ctor_def)
  have "processOptions None =
       Inr (Some (Options_ctor\<lparr>querySize := INT64_MAX,
                              chunksMaxCount := 137438953471,
                              timeoutSeconds := MAXFLOAT\<rparr>))"
    using options_are_a_mutable_singleton
        [of Options_ctor None "Some (Options_ctor\<lparr>querySize := INT64_MAX,
                              chunksMaxCount := 137438953471,
                              timeoutSeconds := MAXFLOAT\<rparr>)"]
      quotient unset
    by simp
  with quotient show ?thesis by simp
qed

text \<open>
  The claim as stated, that the configuration is an immutable value fixed when it is
  constructed, fails on the object \<open>getInstance\<close> constructs: \<open>processOptions\<close> returns
  the store with three of its fields changed.
\<close>

theorem options_changed_after_construction_counterexample:
  "getInstance None = (Options_ctor, Some Options_ctor)
   \<and> processOptions (Some Options_ctor) \<noteq> Inr (Some Options_ctor)
   \<and> processOptions (Some Options_ctor) =
       Inr (Some (Options_ctor\<lparr>querySize := 9223372036854775807,
                              chunksMaxCount := 137438953471,
                              timeoutSeconds := 340282346638528859811704183484516925440\<rparr>))"
  by (simp add: processOptions_def getInstance_def Options_ctor_def INT64_MAX_def MAXFLOAT_def
      div_long_def Let_def)

subsection \<open>fileRead\<close>

lemma head_state_0: "head_state options elapsed st 0 = st"
  by (simp add: head_state_def)

lemma head_state_Suc:
  "head_state options elapsed st (Suc n) =
     head_state options elapsed (fileRead_body options elapsed st) n"
  by (simp add: head_state_def funpow_swap1)

lemma reaches_head_0: "reaches_head options elapsed st 0"
  by (simp add: reaches_head_def)

lemma reaches_head_Suc:
  "reaches_head options elapsed st (Suc n) \<longleftrightarrow>
     \<not> limit_hit options st
     \<and> \<not> fail (ifs (fileRead_body options elapsed st))
     \<and> reaches_head options elapsed (fileRead_body options elapsed st) n"
  unfolding reaches_head_def All_less_Suc2
  by (simp add: head_state_0 head_state_Suc)

lemma stopped_by_limit_unfold:
  "stopped_by_limit options elapsed st \<longleftrightarrow>
     limit_hit options st
     \<or> (\<not> fail (ifs (fileRead_body options elapsed st))
        \<and> stopped_by_limit options elapsed (fileRead_body options elapsed st))"
proof -
  have "stopped_by_limit options elapsed st \<longleftrightarrow>
      (reaches_head options elapsed st 0 \<and> limit_hit options (head_state options elapsed st 0))
      \<or> (\<exists>n. reaches_head options elapsed st (Suc n)
              \<and> limit_hit options (head_state options elapsed st (Suc n)))"
    unfolding stopped_by_limit_def by (metis not0_implies_Suc)
  then show ?thesis
    by (auto simp: reaches_head_0 head_state_0 reaches_head_Suc head_state_Suc
        stopped_by_limit_def)
qed

lemma stopped_by_source_unfold:
  "stopped_by_source options elapsed st \<longleftrightarrow>
     \<not> limit_hit options st
     \<and> (fail (ifs (fileRead_body options elapsed st))
        \<or> stopped_by_source options elapsed (fileRead_body options elapsed st))"
proof -
  have "stopped_by_source options elapsed st \<longleftrightarrow>
      (reaches_head options elapsed st 0 \<and> \<not> limit_hit options (head_state options elapsed st 0)
        \<and> fail (ifs (head_state options elapsed st (Suc 0))))
      \<or> (\<exists>n. reaches_head options elapsed st (Suc n)
              \<and> \<not> limit_hit options (head_state options elapsed st (Suc n))
              \<and> fail (ifs (head_state options elapsed st (Suc (Suc n)))))"
    unfolding stopped_by_source_def by (metis not0_implies_Suc)
  then show ?thesis
    by (auto simp: reaches_head_0 head_state_0 reaches_head_Suc head_state_Suc
        stopped_by_source_def)
qed

lemma result_fileRead_body [simp]: "result (fileRead_body options elapsed st) = result st"
  by (simp add: fileRead_body_def split: prod.splits)

lemma fileRead_loop_result:
  "result (fileRead_loop options elapsed st) \<longleftrightarrow> result st \<or> stopped_by_limit options elapsed st"
proof (induction options elapsed st rule: fileRead_loop.induct)
  case (1 options elapsed st)
  show ?case
  proof (cases "limit_hit options st")
    case True
    then show ?thesis
      using stopped_by_limit_unfold [of options elapsed st]
      by (auto simp: fileRead_loop.simps [of options elapsed st] limit_hit_def)
  next
    case False
    then have no: "\<not> timed_out options st" "\<not> over_budget options st"
      by (simp_all add: limit_hit_def)
    show ?thesis
    proof (cases "fail (ifs (fileRead_body options elapsed st))")
      case True
      then show ?thesis
        using no False stopped_by_limit_unfold [of options elapsed st]
        by (simp add: fileRead_loop.simps [of options elapsed st])
    next
      case ok: False
      then show ?thesis
        using no False stopped_by_limit_unfold [of options elapsed st] "1.IH" [OF no ok]
        by (simp add: fileRead_loop.simps [of options elapsed st])
    qed
  qed
qed

lemma stopped_by_source_iff:
  "stopped_by_source options elapsed st \<longleftrightarrow> \<not> stopped_by_limit options elapsed st"
proof (induction options elapsed st rule: fileRead_loop.induct)
  case (1 options elapsed st)
  show ?case
  proof (cases "limit_hit options st")
    case True
    then show ?thesis
      using stopped_by_limit_unfold [of options elapsed st]
        stopped_by_source_unfold [of options elapsed st] by simp
  next
    case False
    then have no: "\<not> timed_out options st" "\<not> over_budget options st"
      by (simp_all add: limit_hit_def)
    show ?thesis
    proof (cases "fail (ifs (fileRead_body options elapsed st))")
      case True
      then show ?thesis
        using False stopped_by_limit_unfold [of options elapsed st]
          stopped_by_source_unfold [of options elapsed st] by simp
    next
      case ok: False
      then show ?thesis
        using False stopped_by_limit_unfold [of options elapsed st]
          stopped_by_source_unfold [of options elapsed st] "1.IH" [OF no ok] by simp
    qed
  qed
qed

lemma fileRead_True_iff:
  "fileRead inst fs elapsed = Inr True \<longleftrightarrow>
     0 \<le> chunkSize (fst (getInstance inst))
     \<and> (\<exists>st0. fileRead_start (fst (getInstance inst)) fs = Some st0
              \<and> stopped_by_limit (fst (getInstance inst)) elapsed st0)"
proof -
  have "result st0 = False" if "fileRead_start options fs = Some st0" for options st0
    using that by (auto simp: fileRead_start_def Let_def split: if_splits)
  then show ?thesis
    by (auto simp: fileRead_def Let_def fileRead_loop_result split: option.splits)
qed

lemma fileRead_False_iff:
  "fileRead inst fs elapsed = Inr False \<longleftrightarrow>
     0 \<le> chunkSize (fst (getInstance inst))
     \<and> (fileRead_start (fst (getInstance inst)) fs = None
        \<or> (\<exists>st0. fileRead_start (fst (getInstance inst)) fs = Some st0
                \<and> stopped_by_source (fst (getInstance inst)) elapsed st0))"
proof -
  have "result st0 = False" if "fileRead_start options fs = Some st0" for options st0
    using that by (auto simp: fileRead_start_def Let_def split: if_splits)
  then show ?thesis
    by (auto simp: fileRead_def Let_def fileRead_loop_result stopped_by_source_iff
        split: option.splits)
qed

lemma main_exit_1_iff:
  "main_after_parseArguments inst0 fs elapsed = Inr 1 \<longleftrightarrow>
     (\<exists>inst1. processOptions inst0 = Inr inst1 \<and> fileRead inst1 fs elapsed = Inr False)"
  by (auto simp: main_after_parseArguments_def split: sum.splits)

text \<open>
  C8.  \<open>fileRead\<close> returns \<^verbatim>\<open>true\<close> if and only if its loop is stopped by a limit: the
  buffer could be allocated, both streams opened, and the loop got to a test at its head
  that fired, by the timeout or by the chunk budget.  It returns \<^verbatim>\<open>false\<close> if and only
  if a stream did not open or the loop is stopped by the source (a read left the stream
  failed before any test fired), and the exit status of \<open>main\<close> is 1 exactly when
  \<open>fileRead\<close> returns \<^verbatim>\<open>false\<close>.
\<close>

theorem fileRead_true_iff_stopped_by_limit:
  assumes "options = fst (getInstance inst)"
  shows "(fileRead inst fs elapsed = Inr True \<longleftrightarrow>
            0 \<le> chunkSize options
            \<and> (\<exists>st0. fileRead_start options fs = Some st0 \<and> stopped_by_limit options elapsed st0))
       \<and> (fileRead inst fs elapsed = Inr False \<longleftrightarrow>
            0 \<le> chunkSize options
            \<and> (fileRead_start options fs = None
               \<or> (\<exists>st0. fileRead_start options fs = Some st0
                       \<and> stopped_by_source options elapsed st0)))
       \<and> (main_after_parseArguments inst0 fs elapsed = Inr 1 \<longleftrightarrow>
            (\<exists>inst1. processOptions inst0 = Inr inst1 \<and> fileRead inst1 fs elapsed = Inr False))"
  using assms fileRead_True_iff [of inst fs elapsed] fileRead_False_iff [of inst fs elapsed]
    main_exit_1_iff [of inst0 fs elapsed]
  by simp

text \<open>
  Two runs over the file of ten bytes, each iteration taking one second.  With a budget
  of one chunk the third test fires; with a budget of ten the third read meets the end of
  the file and the exit status is 1.
\<close>

lemma example_fileRead_budget:
  "fileRead (Some (example_options 1 100)) example_files (\<lambda>k. 1) = Inr True"
  by (simp add: fileRead_def getInstance_def fileRead_start_def open_ifstream_def
      open_ofstream_def example_files_def example_options_def fileRead_loop.simps
      fileRead_body_def istream_read_def sentry_def good_def fail_def timed_out_def
      over_budget_def Let_def)

lemma example_fileRead_eof:
  "fileRead (Some (example_options 10 100)) example_files (\<lambda>k. 1) = Inr False"
  by (simp add: fileRead_def getInstance_def fileRead_start_def open_ifstream_def
      open_ofstream_def example_files_def example_options_def fileRead_loop.simps
      fileRead_body_def istream_read_def sentry_def good_def fail_def timed_out_def
      over_budget_def Let_def)

lemma example_processOptions:
  "processOptions (Some (example_options 10 100)) = Inr (Some (example_options 10 100))"
  by (simp add: processOptions_def getInstance_def example_options_def Let_def)

lemma example_fileRead_start:
  "fileRead_start (example_options n t) example_files =
     Some \<lparr>ifs = \<lparr>content = ''abcdefghij'', seekable = True, gpos = 0,
                    eofbit = False, failbit = False, badbit = False\<rparr>,
            result = False, totalRead = 0, chunksCount = 0, totalElapsed = 0,
            iteration = 0\<rparr>"
  by (simp add: fileRead_start_def open_ifstream_def open_ofstream_def example_files_def
      example_options_def fail_def)

theorem fileRead_true_iff_stopped_by_limit_witness:
  "stopped_by_limit (example_options 1 100) (\<lambda>k. 1)
     \<lparr>ifs = \<lparr>content = ''abcdefghij'', seekable = True, gpos = 0,
              eofbit = False, failbit = False, badbit = False\<rparr>,
      result = False, totalRead = 0, chunksCount = 0, totalElapsed = 0, iteration = 0\<rparr>
   \<and> stopped_by_source (example_options 10 100) (\<lambda>k. 1)
     \<lparr>ifs = \<lparr>content = ''abcdefghij'', seekable = True, gpos = 0,
              eofbit = False, failbit = False, badbit = False\<rparr>,
      result = False, totalRead = 0, chunksCount = 0, totalElapsed = 0, iteration = 0\<rparr>
   \<and> main_after_parseArguments (Some (example_options 10 100)) example_files (\<lambda>k. 1) = Inr 1"
proof -
  have budget: "example_options 1 100 = fst (getInstance (Some (example_options 1 100)))"
    and eof: "example_options 10 100 = fst (getInstance (Some (example_options 10 100)))"
    by (simp_all add: getInstance_def)
  show ?thesis
    using fileRead_true_iff_stopped_by_limit [OF budget, of example_files "\<lambda>k. 1"]
      fileRead_true_iff_stopped_by_limit
        [OF eof, of example_files "\<lambda>k. 1" "Some (example_options 10 100)"]
      example_fileRead_budget example_fileRead_eof example_processOptions
    by (simp add: example_fileRead_start)
qed

subsection \<open>fileCopy\<close>

lemma fileCopy_True_iff:
  "fileCopy inst fs io elapsed = Inr True \<longleftrightarrow>
     (\<exists>fileSize st. fileCopy_run inst fs io elapsed = Inr (Some (fileSize, st))
         \<and> totalRead st = fileSize)"
  by (auto simp: fileCopy_def split: sum.splits option.splits)

text \<open>
  C3, as the code has it.  A copy reports success exactly when it gets to its loop and
  leaves it with the number of bytes read equal to the length it measured for the source
  beforehand; nothing else is asked, in particular not that the writes went through.  A
  copy that leaves its loop with any other count, such as one cut short by the timeout or
  the chunk budget, reports failure.  The reader does the opposite: a loop stopped by the
  timeout or the chunk budget is its success, whatever it has read.
\<close>

theorem partial_transfer_reporting:
  assumes "options = fst (getInstance inst)"
  shows "(fileCopy inst fs io elapsed = Inr True \<longleftrightarrow>
            (\<exists>fileSize st. fileCopy_run inst fs io elapsed = Inr (Some (fileSize, st))
                \<and> totalRead st = fileSize))
       \<and> (\<forall>fileSize st. fileCopy_run inst fs io elapsed = Inr (Some (fileSize, st))
              \<and> totalRead st \<noteq> fileSize
            \<longrightarrow> fileCopy inst fs io elapsed = Inr False)
       \<and> (\<forall>st0. 0 \<le> chunkSize options \<and> fileRead_start options fs = Some st0
              \<and> stopped_by_limit options elapsed st0
            \<longrightarrow> fileRead inst fs elapsed = Inr True)"
proof (intro conjI allI impI)
  show "fileCopy inst fs io elapsed = Inr True \<longleftrightarrow>
          (\<exists>fileSize st. fileCopy_run inst fs io elapsed = Inr (Some (fileSize, st))
              \<and> totalRead st = fileSize)"
    by (rule fileCopy_True_iff)
next
  fix fileSize st
  assume "fileCopy_run inst fs io elapsed = Inr (Some (fileSize, st)) \<and> totalRead st \<noteq> fileSize"
  then show "fileCopy inst fs io elapsed = Inr False"
    by (auto simp: fileCopy_def)
next
  fix st0
  assume "0 \<le> chunkSize options \<and> fileRead_start options fs = Some st0
          \<and> stopped_by_limit options elapsed st0"
  then show "fileRead inst fs elapsed = Inr True"
    using fileRead_True_iff [of inst fs elapsed] assms by auto
qed

text \<open>
  The copier over the file of ten bytes, one second an iteration.  With a timeout of 100
  seconds and every write going through, the loop reads the ten bytes and the destination
  has them.  With a timeout of 1.5 seconds the loop is left after eight bytes.  With a
  timeout of 100 seconds and the third write failing, the loop reads the ten bytes all
  the same, and the destination has eight.
\<close>

lemma example_fileCopy_run_complete:
  "\<exists>st. fileCopy_run (Some (example_options 10 100)) example_files example_io (\<lambda>k. 1)
           = Inr (Some (10, st))
        \<and> totalRead st = 10 \<and> \<not> ofail (ofs st) \<and> obytes (ofs st) = ''abcdefghij''"
  by (simp add: fileCopy_run_def getInstance_def open_ifstream_def
      open_ofstream_def example_files_def example_options_def example_io_def
      fileLength_def tellg_def
      processOptions_fileSize_def fileCopy_loop.simps fileCopy_body_def istream_read_def
      sentry_def good_def fail_def pubseekoff_def seekg_def
      ostream_write_at_def timed_out_def over_budget_def Let_def)

lemma example_fileCopy_run_cut:
  "\<exists>st. fileCopy_run (Some (example_options 10 1.5)) example_files example_io (\<lambda>k. 1)
           = Inr (Some (10, st))
        \<and> totalRead st = 8"
  by (simp add: fileCopy_run_def getInstance_def open_ifstream_def
      open_ofstream_def example_files_def example_options_def example_io_def
      fileLength_def tellg_def
      processOptions_fileSize_def fileCopy_loop.simps fileCopy_body_def istream_read_def
      sentry_def good_def fail_def pubseekoff_def seekg_def
      ostream_write_at_def timed_out_def over_budget_def Let_def)

lemma example_fileCopy_run_write_failed:
  "\<exists>st. fileCopy_run (Some (example_options 10 100)) example_files (example_io_failing 2)
           (\<lambda>k. 1) = Inr (Some (10, st))
        \<and> totalRead st = 10 \<and> ofail (ofs st) \<and> obytes (ofs st) = ''abcdefgh''"
  by (simp add: fileCopy_run_def getInstance_def open_ifstream_def
      open_ofstream_def example_files_def example_options_def example_io_failing_def
      fileLength_def tellg_def
      processOptions_fileSize_def fileCopy_loop.simps fileCopy_body_def istream_read_def
      sentry_def good_def fail_def pubseekoff_def seekg_def
      ostream_write_at_def timed_out_def over_budget_def Let_def)

lemma example_stopped_by_limit:
  "\<exists>st0. fileRead_start (example_options 1 100) example_files = Some st0
         \<and> stopped_by_limit (example_options 1 100) (\<lambda>k. 1) st0"
  using example_fileRead_budget fileRead_True_iff [of "Some (example_options 1 100)"]
  by (simp add: getInstance_def)

theorem partial_transfer_reporting_witness:
  "fileCopy (Some (example_options 10 100)) example_files example_io (\<lambda>k. 1) = Inr True
   \<and> fileCopy (Some (example_options 10 1.5)) example_files example_io (\<lambda>k. 1) = Inr False
   \<and> fileCopy (Some (example_options 10 100)) example_files (example_io_failing 2) (\<lambda>k. 1)
       = Inr True
   \<and> fileRead (Some (example_options 1 100)) example_files (\<lambda>k. 1) = Inr True"
proof -
  have long: "example_options 10 100 = fst (getInstance (Some (example_options 10 100)))"
    and short: "example_options 10 1.5 = fst (getInstance (Some (example_options 10 1.5)))"
    and budget: "example_options 1 100 = fst (getInstance (Some (example_options 1 100)))"
    by (simp_all add: getInstance_def)
  have "fileCopy (Some (example_options 10 100)) example_files example_io (\<lambda>k. 1) = Inr True"
    using partial_transfer_reporting [OF long, of example_files example_io "\<lambda>k. 1"]
      example_fileCopy_run_complete
    by blast
  moreover
  have "fileCopy (Some (example_options 10 1.5)) example_files example_io (\<lambda>k. 1) = Inr False"
  proof -
    obtain st where
      "fileCopy_run (Some (example_options 10 1.5)) example_files example_io (\<lambda>k. 1)
         = Inr (Some (10, st))"
      and "totalRead st \<noteq> 10"
      using example_fileCopy_run_cut by auto
    then show ?thesis
      using partial_transfer_reporting [OF short, of example_files example_io "\<lambda>k. 1"]
      by blast
  qed
  moreover
  have "fileCopy (Some (example_options 10 100)) example_files (example_io_failing 2) (\<lambda>k. 1)
          = Inr True"
    using partial_transfer_reporting [OF long, of example_files "example_io_failing 2" "\<lambda>k. 1"]
      example_fileCopy_run_write_failed
    by blast
  moreover
  have "fileRead (Some (example_options 1 100)) example_files (\<lambda>k. 1) = Inr True"
  proof -
    obtain st0 where "fileRead_start (example_options 1 100) example_files = Some st0"
      and "stopped_by_limit (example_options 1 100) (\<lambda>k. 1) st0"
      using example_stopped_by_limit by auto
    moreover have "0 \<le> chunkSize (example_options 1 100)"
      by (simp add: example_options_def)
    ultimately show ?thesis
      using partial_transfer_reporting [OF budget, of example_files example_io "\<lambda>k. 1"]
      by blast
  qed
  ultimately show ?thesis by simp
qed

text \<open>
  The claim as stated fails on the reader.  Ten bytes are requested (\<^verbatim>\<open>querySize\<close>) and
  the file holds them, but with a timeout of 1.5 seconds the test fires after two reads:
  eight bytes have been read, \<open>fileRead\<close> returns \<^verbatim>\<open>true\<close> and the exit status is 0.
\<close>

theorem short_read_reported_as_success_counterexample:
  "fileRead (Some (example_options 10 1.5)) example_files (\<lambda>k. 1) = Inr True
   \<and> (\<exists>st0. fileRead_start (example_options 10 1.5) example_files = Some st0
            \<and> totalRead (fileRead_loop (example_options 10 1.5) (\<lambda>k. 1) st0) = 8)
   \<and> querySize (example_options 10 1.5) = 10
   \<and> main_after_parseArguments (Some (example_options 10 1.5)) example_files (\<lambda>k. 1) = Inr 0"
  by (simp add: main_after_parseArguments_def processOptions_def
      fileRead_def getInstance_def fileRead_start_def open_ifstream_def
      open_ofstream_def example_files_def example_options_def fileRead_loop.simps
      fileRead_body_def istream_read_def sentry_def good_def fail_def timed_out_def
      over_budget_def Let_def)

subsection \<open>dehumanize\<close>

lemma nullable_lang: "nullable r \<longleftrightarrow> [] \<in> lang r"
  by (induction r) (auto simp: conc_def intro: star.intros)

lemma star_cons_iff:
  "c # w \<in> star A \<longleftrightarrow> (\<exists>u v. w = u @ v \<and> c # u \<in> A \<and> v \<in> star A)"
proof
  assume "c # w \<in> star A"
  then show "\<exists>u v. w = u @ v \<and> c # u \<in> A \<and> v \<in> star A"
  proof (induction "c # w" rule: star.induct)
    case (star_step u v)
    then show ?case by (cases u) auto
  qed
next
  assume "\<exists>u v. w = u @ v \<and> c # u \<in> A \<and> v \<in> star A"
  then obtain u v where "w = u @ v" "c # u \<in> A" "v \<in> star A" by blast
  then show "c # w \<in> star A" using star.star_step [of "c # u" A v] by simp
qed

lemma conc_cons_iff:
  "c # w \<in> conc A B \<longleftrightarrow>
     (\<exists>u v. w = u @ v \<and> c # u \<in> A \<and> v \<in> B) \<or> ([] \<in> A \<and> c # w \<in> B)"
  by (auto simp: conc_def Cons_eq_append_conv) 

lemma in_conc: "w \<in> conc A B \<longleftrightarrow> (\<exists>u v. w = u @ v \<and> u \<in> A \<and> v \<in> B)"
  by (auto simp: conc_def)

lemma lang_deriv: "w \<in> lang (deriv c r) \<longleftrightarrow> c # w \<in> lang r"
proof (induction r arbitrary: w)
  case (Seq r s)
  have "w \<in> lang (deriv c (Seq r s)) \<longleftrightarrow>
          (\<exists>u v. w = u @ v \<and> u \<in> lang (deriv c r) \<and> v \<in> lang s)
          \<or> (nullable r \<and> w \<in> lang (deriv c s))"
    by (auto simp: in_conc)
  also have "\<dots> \<longleftrightarrow>
          (\<exists>u v. w = u @ v \<and> c # u \<in> lang r \<and> v \<in> lang s)
          \<or> ([] \<in> lang r \<and> c # w \<in> lang s)"
    by (simp add: Seq nullable_lang)
  also have "\<dots> \<longleftrightarrow> c # w \<in> conc (lang r) (lang s)"
    by (simp add: conc_cons_iff)
  finally show ?case by simp
next
  case (Star r)
  then show ?case by (simp add: star_cons_iff in_conc)
qed auto

lemma regex_match_lang: "regex_match w r \<longleftrightarrow> w \<in> lang r"
  unfolding regex_match_def
  by (induction w arbitrary: r) (simp_all add: nullable_lang lang_deriv)


lemma star_singletons:
  "w \<in> star {[c] | c. P c} \<longleftrightarrow> (\<forall>c \<in> set w. P c)"
proof
  assume "w \<in> star {[c] | c. P c}"
  then show "\<forall>c \<in> set w. P c"
    by (induction rule: star.induct) auto
next
  assume "\<forall>c \<in> set w. P c"
  then show "w \<in> star {[c] | c. P c}"
  proof (induction w)
    case Nil
    show ?case by (rule star_empty)
  next
    case (Cons c w)
    then have "[c] \<in> {[c] | c. P c}" and "w \<in> star {[c] | c. P c}" by simp_all
    then show ?case using star_step [of "[c]" "{[c] | c. P c}" w] by simp
  qed
qed

lemma star_Chr: "w \<in> star {[d]} \<longleftrightarrow> (\<forall>c \<in> set w. c = d)"
  using star_singletons [of w "\<lambda>c. c = d"] by simp

lemma kibi_iff:
  "regex_match w kibi_pattern \<longleftrightarrow>
     (\<exists>p. (\<forall>c \<in> set p. \<not> line_terminator c) \<and> (w = p @ ''K'' \<or> w = p @ ''KiB''))"
  by (auto simp: regex_match_lang kibi_pattern_def in_conc star_singletons)

lemma mebi_iff:
  "regex_match w mebi_pattern \<longleftrightarrow>
     (\<exists>p. (\<forall>c \<in> set p. \<not> line_terminator c) \<and> (w = p @ ''M'' \<or> w = p @ ''MiB''))"
  by (auto simp: regex_match_lang mebi_pattern_def in_conc star_singletons)

lemma gibi_iff:
  "regex_match w gibi_pattern \<longleftrightarrow>
     (\<exists>p. (\<forall>c \<in> set p. c = CHR '','') \<and> (w = p @ ''G'' \<or> w = p @ ''GiB''))"
  by (auto simp: regex_match_lang gibi_pattern_def in_conc star_Chr)

lemma round_double_exact: "n < 2 ^ 53 \<Longrightarrow> round_double n = n"
  by (simp add: round_double_def)

lemma strtod_digits_suffix:
  assumes ds: "\<forall>c \<in> set ds. isdigit_c c"
    and suf: "suf \<noteq> []" "hd suf \<in> set ''KMG''"
  shows "strtod (ds @ suf) = Inr (int (round_double (decimal_value ds)))"
proof -
  have k_props: "\<not> isdigit_c (hd suf)" "\<not> isspace_c (hd suf)"
    "hd suf \<noteq> CHR ''-''" "hd suf \<noteq> CHR ''+''"
    "hd suf \<notin> set ''.eE''" "hd suf \<notin> set ''xX''" "hd suf \<notin> set ''iInN''"
    using suf(2) by (auto simp: isdigit_c_def isspace_c_def)
  have d_props: "\<not> isspace_c c \<and> c \<noteq> CHR ''-'' \<and> c \<noteq> CHR ''+''" if "isdigit_c c" for c
    using that by (auto simp: isdigit_c_def isspace_c_def)
  have hd_props: "\<not> isspace_c (hd (ds @ suf))" "hd (ds @ suf) \<noteq> CHR ''-''"
    "hd (ds @ suf) \<noteq> CHR ''+''"
    using ds d_props k_props suf(1) by (cases ds; simp)+
  have t: "dropWhile isspace_c (ds @ suf) = ds @ suf"
    using hd_props(1) suf(1) by (cases "ds @ suf") auto
  have tw: "takeWhile isdigit_c (ds @ suf) = ds"
    using ds k_props(1) suf(1) by (cases suf) simp_all
  have dw: "dropWhile isdigit_c (ds @ suf) = suf"
    using ds k_props(1) suf(1) by (cases suf) simp_all
  have u: "(if ds @ suf \<noteq> [] \<and> (hd (ds @ suf) = CHR ''-'' \<or> hd (ds @ suf) = CHR ''+'')
            then tl (ds @ suf) else ds @ suf) = ds @ suf"
    using hd_props by simp
  show ?thesis
    unfolding strtod_def Let_def t u tw dw
    using hd_props(2) k_props(5,6,7) by simp
qed

lemma digit_not_line_terminator: "isdigit_c c \<Longrightarrow> \<not> line_terminator c"
  by (auto simp: isdigit_c_def line_terminator_def)

lemma digit_not_comma: "isdigit_c c \<Longrightarrow> c \<noteq> CHR '',''"
  by (auto simp: isdigit_c_def)

lemma append_suffix3_eq:
  "xs @ [a, b, c] = ys @ [a', b', c'] \<longleftrightarrow> xs = ys \<and> a = a' \<and> b = b' \<and> c = c'"
  using append_eq_append_conv [of "[a, b, c]" "[a', b', c']" xs ys] by auto

lemma append_suffix3_neq1: "c \<noteq> d \<Longrightarrow> xs @ [a, b, c] \<noteq> ys @ [d]"
  using append1_eq_conv [of "xs @ [a, b]" c ys d] by auto

lemma kibi_digits:
  assumes "\<forall>c \<in> set ds. isdigit_c c"
  shows "regex_match (ds @ ''K'') kibi_pattern" "regex_match (ds @ ''KiB'') kibi_pattern"
    "\<not> regex_match (ds @ ''M'') kibi_pattern" "\<not> regex_match (ds @ ''MiB'') kibi_pattern"
    "\<not> regex_match (ds @ ''G'') kibi_pattern" "\<not> regex_match (ds @ ''GiB'') kibi_pattern"
  using assms digit_not_line_terminator
  by (auto simp: kibi_iff append_suffix3_eq append_suffix3_neq1 append_suffix3_neq1 [symmetric])

lemma mebi_digits:
  assumes "\<forall>c \<in> set ds. isdigit_c c"
  shows "regex_match (ds @ ''M'') mebi_pattern" "regex_match (ds @ ''MiB'') mebi_pattern"
    "\<not> regex_match (ds @ ''G'') mebi_pattern" "\<not> regex_match (ds @ ''GiB'') mebi_pattern"
  using assms digit_not_line_terminator
  by (auto simp: mebi_iff append_suffix3_eq append_suffix3_neq1 append_suffix3_neq1 [symmetric])

lemma gibi_digits:
  assumes "\<forall>c \<in> set ds. isdigit_c c"
  shows "regex_match (ds @ ''G'') gibi_pattern \<longleftrightarrow> ds = []"
    "regex_match (ds @ ''GiB'') gibi_pattern \<longleftrightarrow> ds = []"
  using assms digit_not_comma
  by (auto simp: gibi_iff append_suffix3_eq append_suffix3_neq1 append_suffix3_neq1 [symmetric]
      dest!: hd_in_set)


lemma readNumber_digits:
  assumes "\<forall>c \<in> set ds. isdigit_c c" and "suf \<in> set [''K'', ''KiB'', ''M'', ''MiB'', ''G'', ''GiB'']"
  shows "readNumber (ds @ suf) = Inr (int (round_double (decimal_value ds)))"
  unfolding readNumber_def using assms by (intro strtod_digits_suffix) auto

lemma decimal_value_Nil: "decimal_value [] = 0"
  by (simp add: decimal_value_def)

lemma dehumanize_kibi:
  assumes ds: "\<forall>c \<in> set ds. isdigit_c c" and fits: "decimal_value ds * 2 ^ 10 < 2 ^ 63"
    and suf: "suf = ''K'' \<or> suf = ''KiB''"
  shows "dehumanize (ds @ suf) = Inr (int (decimal_value ds) * 2 ^ 10)"
proof -
  have small: "decimal_value ds < 2 ^ 53" using fits by simp
  have "int (decimal_value ds) * 2 ^ 10 < 2 ^ 63"
    using small by simp
  moreover have "int (decimal_value ds) < 2 ^ 63" using small by simp
  ultimately show ?thesis
    using suf readNumber_digits [OF ds, of suf] kibi_digits(1,2) [OF ds]
    by (auto simp: dehumanize_def round_double_exact [OF small] long_of_double_def mul_long_def)
qed

lemma dehumanize_mebi:
  assumes ds: "\<forall>c \<in> set ds. isdigit_c c" and fits: "decimal_value ds * 2 ^ 20 < 2 ^ 63"
    and suf: "suf = ''M'' \<or> suf = ''MiB''"
  shows "dehumanize (ds @ suf) = Inr (int (decimal_value ds) * 2 ^ 20)"
proof -
  have small: "decimal_value ds < 2 ^ 53" using fits by simp
  have "int (decimal_value ds) * 2 ^ 20 < 2 ^ 63"
    using fits by simp
  moreover have "int (decimal_value ds) < 2 ^ 63" using small by simp
  ultimately show ?thesis
    using suf readNumber_digits [OF ds, of suf] kibi_digits(3,4) [OF ds] mebi_digits(1,2) [OF ds]
    by (auto simp: dehumanize_def round_double_exact [OF small] long_of_double_def mul_long_def)
qed

lemma dehumanize_gibi:
  assumes ds: "\<forall>c \<in> set ds. isdigit_c c" and fits: "round_double (decimal_value ds) < 2 ^ 63"
    and suf: "suf = ''G'' \<or> suf = ''GiB''"
  shows "dehumanize (ds @ suf) = Inr (int (round_double (decimal_value ds)))"
proof -
  have "int (round_double (decimal_value ds)) < 2 ^ 63"
    using fits by simp
  then show ?thesis
    using suf readNumber_digits [OF ds, of suf] kibi_digits(5,6) [OF ds] mebi_digits(3,4) [OF ds]
      gibi_digits [OF ds]
    by (cases "ds = []")
      (auto simp: dehumanize_def long_of_double_def mul_long_def decimal_value_Nil round_double_exact)
qed

text \<open>
  C9, as the code has it.  For a string of decimal digits \<open>ds\<close> of value \<open>v\<close>: with
  the suffix \<open>K\<close> or \<open>KiB\<close> the result is \<open>v * 2^10\<close>, with \<open>M\<close> or \<open>MiB\<close> it is
  \<open>v * 2^20\<close>, in each case provided the product is below \<open>2^63\<close>, the range of a 64-bit
  \<^verbatim>\<open>long\<close>; with \<open>G\<close> or \<open>GiB\<close> the result is not scaled: provided the \<^verbatim>\<open>double\<close> nearest
  to \<open>v\<close> is below \<open>2^63\<close>, the result is that \<^verbatim>\<open>double\<close>, which is \<open>v\<close> itself when
  \<open>v\<close> is below \<open>2^53\<close>.  (The gibibyte pattern matches commas before the suffix, so
  among these strings it matches only the bare suffix, of value zero.)
\<close>

theorem dehumanize_suffix_scaling:
  assumes "\<forall>c \<in> set ds. isdigit_c c"
  shows "(decimal_value ds * 2 ^ 10 < 2 ^ 63 \<longrightarrow>
            dehumanize (ds @ ''K'') = Inr (int (decimal_value ds) * 2 ^ 10)
          \<and> dehumanize (ds @ ''KiB'') = Inr (int (decimal_value ds) * 2 ^ 10))
       \<and> (decimal_value ds * 2 ^ 20 < 2 ^ 63 \<longrightarrow>
            dehumanize (ds @ ''M'') = Inr (int (decimal_value ds) * 2 ^ 20)
          \<and> dehumanize (ds @ ''MiB'') = Inr (int (decimal_value ds) * 2 ^ 20))
       \<and> (round_double (decimal_value ds) < 2 ^ 63 \<longrightarrow>
            dehumanize (ds @ ''G'') = Inr (int (round_double (decimal_value ds)))
          \<and> dehumanize (ds @ ''GiB'') = Inr (int (round_double (decimal_value ds))))
       \<and> (decimal_value ds < 2 ^ 53 \<longrightarrow> round_double (decimal_value ds) = decimal_value ds)"
  using dehumanize_kibi [OF assms] dehumanize_mebi [OF assms] dehumanize_gibi [OF assms]
    round_double_exact
  by blast

text \<open>The theorem at the digits \<open>64\<close>.\<close>

lemma decimal_64: "decimal_value ''64'' = 64"
  by (simp add: decimal_value_def digit_value_def)

theorem dehumanize_suffix_scaling_witness:
  "dehumanize ''64K'' = Inr 65536 \<and> dehumanize ''64KiB'' = Inr 65536
   \<and> dehumanize ''64M'' = Inr 67108864 \<and> dehumanize ''64MiB'' = Inr 67108864
   \<and> dehumanize ''64G'' = Inr 64 \<and> dehumanize ''64GiB'' = Inr 64"
proof -
  have digits: "\<forall>c \<in> set ''64''. isdigit_c c" by (simp add: isdigit_c_def)
  show ?thesis
    using dehumanize_suffix_scaling [OF digits] by (simp add: decimal_64 round_double_def)
qed


text \<open>
  The claim as stated, for every string of digits, fails where the numbers leave the
  range of the types involved: \<open>2^53\<close> kibibytes is \<open>2^63\<close>, which no \<^verbatim>\<open>long\<close> holds (the
  multiplication overflows), and \<open>2^53 + 1\<close> with the suffix \<open>G\<close> comes back as \<open>2^53\<close>,
  the nearest \<^verbatim>\<open>double\<close>.
\<close>

theorem dehumanize_range_counterexample:
  "dehumanize ''9007199254740992K'' = Inl Signed_overflow
   \<and> dehumanize ''9007199254740993G'' = Inr 9007199254740992"
proof -
  have dK: "\<forall>c \<in> set ''9007199254740992''. isdigit_c c"
    and dG: "\<forall>c \<in> set ''9007199254740993''. isdigit_c c"
    by (simp_all add: isdigit_c_def)
  have vK: "decimal_value ''9007199254740992'' = 9007199254740992"
    and vG: "decimal_value ''9007199254740993'' = 9007199254740993"
    by (simp_all add: decimal_value_def digit_value_def)
  have rK: "round_double 9007199254740992 = 9007199254740992"
    and rG: "round_double 9007199254740993 = 9007199254740992"
    by (simp_all add: round_double_def bitlen.simps Let_def)
  have "dehumanize (''9007199254740992'' @ ''K'') = Inl Signed_overflow"
    using readNumber_digits [OF dK, of "''K''"] kibi_digits(1) [OF dK]
    by (simp add: dehumanize_def vK rK long_of_double_def mul_long_def)
  moreover have "dehumanize (''9007199254740993'' @ ''G'') = Inr 9007199254740992"
    using readNumber_digits [OF dG, of "''G''"] kibi_digits(5) [OF dG] mebi_digits(3) [OF dG]
      gibi_digits(1) [OF dG]
    by (simp add: dehumanize_def vG rG long_of_double_def)
  ultimately show ?thesis by simp
qed

subsection \<open>fileLength\<close>

lemma fileLength_good:
  assumes "good fs" and "seekable fs"
  shows "fileLength fs = (int (length (content fs)), fs)"
  using assms
  by (simp add: fileLength_def tellg_def seekg_def sentry_def pubseekoff_def good_def fail_def)

lemma fileLength_not_good:
  assumes "\<not> good fs"
  shows "fileLength fs = (- 1, fs\<lparr>eofbit := False, failbit := True\<rparr>)"
  using assms
  by (auto simp add: fileLength_def tellg_def seekg_def sentry_def pubseekoff_def good_def fail_def)

lemma fileLength_not_seekable:
  assumes "good fs" and "\<not> seekable fs"
  shows "fileLength fs = (- 1, fs\<lparr>failbit := True\<rparr>)"
  using assms
  by (simp add: fileLength_def tellg_def seekg_def sentry_def pubseekoff_def good_def fail_def)

text \<open>
  C10, as the code has it.  On every stream \<open>fileLength\<close> leaves the get position (and
  the bytes) where they were.  On a stream that is good and can seek it returns the
  length of the file and leaves the whole stream state as it found it.  On a stream that
  is not good, or cannot seek, it returns \<open>-1\<close> instead of the length.
\<close>

theorem fileLength_restores_position:
  "gpos (snd (fileLength fs)) = gpos fs
   \<and> content (snd (fileLength fs)) = content fs
   \<and> (good fs \<and> seekable fs \<longrightarrow> fileLength fs = (int (length (content fs)), fs))
   \<and> (\<not> (good fs \<and> seekable fs) \<longrightarrow> fst (fileLength fs) = - 1)"
proof (cases "good fs")
  case True
  then show ?thesis
    by (cases "seekable fs") (simp_all add: fileLength_good fileLength_not_seekable)
next
  case False
  then show ?thesis by (simp add: fileLength_not_good)
qed

text \<open>
  The theorem at a good stream in the middle of a file of eleven bytes, and at the same
  file behind a descriptor that cannot seek.
\<close>

theorem fileLength_restores_position_witness:
  "fileLength \<lparr>content = ''hello world'', seekable = True, gpos = 4,
               eofbit = False, failbit = False, badbit = False\<rparr>
   = (11, \<lparr>content = ''hello world'', seekable = True, gpos = 4,
            eofbit = False, failbit = False, badbit = False\<rparr>)
   \<and> fst (fileLength \<lparr>content = ''hello world'', seekable = False, gpos = 4,
               eofbit = False, failbit = False, badbit = False\<rparr>) = - 1
   \<and> gpos (snd (fileLength \<lparr>content = ''hello world'', seekable = False, gpos = 4,
               eofbit = False, failbit = False, badbit = False\<rparr>)) = 4"
  using fileLength_restores_position
    [of "\<lparr>content = ''hello world'', seekable = True, gpos = 4,
          eofbit = False, failbit = False, badbit = False\<rparr>"]
    fileLength_restores_position
    [of "\<lparr>content = ''hello world'', seekable = False, gpos = 4,
          eofbit = False, failbit = False, badbit = False\<rparr>"]
  by (simp add: good_def)

text \<open>
  The claim as stated (for every input stream the result is the stream's length) fails
  on a stream that was read to its end, as the copy loop leaves it: the file has three
  bytes and \<open>fileLength\<close> returns \<open>-1\<close>.
\<close>

theorem fileLength_failed_stream_counterexample:
  "fst (fileLength \<lparr>content = ''abc'', seekable = True, gpos = 3,
                    eofbit = True, failbit = True, badbit = False\<rparr>) = - 1
   \<and> int (length (content \<lparr>content = ''abc'', seekable = True, gpos = 3,
                    eofbit = True, failbit = True, badbit = False\<rparr>)) = 3"
  by (simp add: fileLength_def tellg_def seekg_def sentry_def pubseekoff_def good_def fail_def)

end
